theory Spec2Isabelle
  imports Main "HOL-Library.Char_ord" "HOL-Library.List_Lexorder" "HOL-Library.Multiset"
begin

section \<open>Shared Python notions\<close>

text \<open>
  The module \<^verbatim>\<open>conda_forge_tick/utils.py\<close> is embedded function by function. Exceptions
  are values of \<open>error\<close>; a function that can raise returns \<open>error + 'a\<close> with
  \<open>Inl\<close> for the exception.
\<close>

datatype error =
    StopIteration
  | TypeError
  | KeyError
  | ValueError
  | ImportError
  | FileNotFoundError
  | FileExistsError
  | IsADirectoryError
  | JSONDecodeError
  | NetworkXError
  | NotImplementedError
  | IndexError

section \<open>UniversalSet\<close>

text \<open>
  \<^verbatim>\<open>
  class UniversalSet(Set):
      def __and__(self, other):       return other
      def __rand__(self, other):      return other
      def __contains__(self, item):   return True
      def __iter__(self):             return self
      def __next__(self):             raise StopIteration
  \<close>
  The operands of \<^verbatim>\<open>&\<close> are either a built-in set (\<^verbatim>\<open>set\<close>, \<^verbatim>\<open>frozenset\<close>) or the
  universal set. An operator method may answer \<^verbatim>\<open>NotImplemented\<close>, which is \<open>None\<close>
  here; the built-in set's \<^verbatim>\<open>__and__\<close> does so for every operand that is not a
  built-in set, and has no \<^verbatim>\<open>__rand__\<close>.
\<close>

datatype 'a operand = BuiltinSet "'a set" | UniversalSet

definition UniversalSet_and :: "'a operand \<Rightarrow> 'a operand" where
  "UniversalSet_and other = other"

definition UniversalSet_rand :: "'a operand \<Rightarrow> 'a operand" where
  "UniversalSet_rand other = other"

definition UniversalSet_contains :: "'a \<Rightarrow> bool" where
  "UniversalSet_contains item = True"

fun set_and :: "'a set \<Rightarrow> 'a operand \<Rightarrow> 'a operand option" where
  "set_and s (BuiltinSet t) = Some (BuiltinSet (s \<inter> t))"
| "set_and s UniversalSet = None"

fun dunder_and :: "'a operand \<Rightarrow> 'a operand \<Rightarrow> 'a operand option" where
  "dunder_and UniversalSet other = Some (UniversalSet_and other)"
| "dunder_and (BuiltinSet s) other = set_and s other"

fun dunder_rand :: "'a operand \<Rightarrow> 'a operand \<Rightarrow> 'a operand option" where
  "dunder_rand UniversalSet other = Some (UniversalSet_rand other)"
| "dunder_rand (BuiltinSet s) other = None"

text \<open>
  The expression \<^verbatim>\<open>lhs & rhs\<close>: the left operand's \<^verbatim>\<open>__and__\<close> is tried first, then
  the right operand's reflected method; when both decline, Python raises TypeError.
\<close>

definition binary_and :: "'a operand \<Rightarrow> 'a operand \<Rightarrow> error + 'a operand" where
  "binary_and lhs rhs =
     (case dunder_and lhs rhs of
        Some r \<Rightarrow> Inr r
      | None \<Rightarrow> (case dunder_rand rhs lhs of Some r \<Rightarrow> Inr r | None \<Rightarrow> Inl TypeError))"

text \<open>
  Iteration. \<^verbatim>\<open>__iter__\<close> returns the object itself, so the iterator state is the
  universal set; \<^verbatim>\<open>__next__\<close> either raises (\<open>Inl\<close>) or hands out an element and the
  next state. \<open>consume\<close> is what a \<^verbatim>\<open>for\<close> loop or \<^verbatim>\<open>list(...)\<close> does with an
  iterator: it calls \<^verbatim>\<open>__next__\<close> until StopIteration is raised, and passes any other
  exception on. A loop that never reaches StopIteration has no value (\<open>None\<close>).
\<close>

datatype universal_iter = UniversalSetIter

definition UniversalSet_iter :: "universal_iter" where
  "UniversalSet_iter = UniversalSetIter"

definition UniversalSet_next :: "universal_iter \<Rightarrow> error + ('a \<times> universal_iter)" where
  "UniversalSet_next self = Inl StopIteration"

partial_function (option) consume ::
  "('s \<Rightarrow> error + ('a \<times> 's)) \<Rightarrow> 's \<Rightarrow> (error + 'a list) option" where
  "consume nxt s =
     (case nxt s of
        Inl e \<Rightarrow> if e = StopIteration then Some (Inr []) else Some (Inl e)
      | Inr (x, s') \<Rightarrow>
          Option.bind (consume nxt s')
            (\<lambda>r. case r of Inl e \<Rightarrow> Some (Inl e) | Inr xs \<Rightarrow> Some (Inr (x # xs))))"

section \<open>Requirements extraction\<close>

text \<open>
  \<^verbatim>\<open>pin_sep_pat = re.compile(" |>|<|=|\[")\<close>: the pattern matches exactly one
  character out of five, so it is the predicate telling which characters match.
  \<open>re_split sep\<close> is \<^verbatim>\<open>pattern.split\<close> for such a pattern: the pieces between all the
  matches, in order, an empty piece wherever two matches are adjacent or a match is at
  an end of the text.
\<close>

definition pin_sep_pat :: "char \<Rightarrow> bool" where
  "pin_sep_pat c = (c \<in> set '' ><=['')"

fun re_split :: "(char \<Rightarrow> bool) \<Rightarrow> string \<Rightarrow> string list" where
  "re_split sep [] = [[]]"
| "re_split sep (c # cs) =
     (if sep c then [] # re_split sep cs
      else (case re_split sep cs of [] \<Rightarrow> [[c]] | p # ps \<Rightarrow> (c # p) # ps))"

text \<open>The subscript \<^verbatim>\<open>[0]\<close>, which raises IndexError on an empty list.\<close>

definition item0 :: "'a list \<Rightarrow> error + 'a" where
  "item0 xs = (case xs of [] \<Rightarrow> Inl IndexError | x # _ \<Rightarrow> Inr x)"

text \<open>
  \<^verbatim>\<open>str.lower()\<close>. A character is a code point below 256; of these Python lower-cases
  A to Z (65 to 90) and the capital letters of Latin-1 (192 to 222 without the
  multiplication sign 215), each by adding 32, which is setting the bit of weight 32.
\<close>

definition lower_char :: "char \<Rightarrow> char" where
  "lower_char c =
     (let n = (of_char c :: nat)
      in if (65 \<le> n \<and> n \<le> 90) \<or> (192 \<le> n \<and> n \<le> 222 \<and> n \<noteq> 215)
         then (case c of Char b0 b1 b2 b3 b4 b5 b6 b7 \<Rightarrow> Char b0 b1 b2 b3 b4 True b6 b7)
         else c)"

definition lower :: "string \<Rightarrow> string" where
  "lower s = map lower_char s"

text \<open>
  A requirements section is \<^verbatim>\<open>None\<close>, a flat list, or a mapping from section names to
  sub-lists; a sub-list may be null (\<open>None\<close>), and so may an entry of a list. An entry
  that is not null is a string.
\<close>

type_synonym reqlist = "string option list"

datatype req = ReqNone | ReqList reqlist | ReqDict "(string \<times> reqlist option) list"

text \<open>\<^verbatim>\<open>d.get(k, dflt)\<close>, the truth value of a section, and \<^verbatim>\<open>v or []\<close>.\<close>

definition dict_get :: "('k \<times> 'v) list \<Rightarrow> 'k \<Rightarrow> 'v \<Rightarrow> 'v" where
  "dict_get d k dflt = (case map_of d k of None \<Rightarrow> dflt | Some v \<Rightarrow> v)"

fun falsy_req :: "req \<Rightarrow> bool" where
  "falsy_req ReqNone = True"
| "falsy_req (ReqList l) = (l = [])"
| "falsy_req (ReqDict d) = (d = [])"

definition or_empty_list :: "'a list option \<Rightarrow> 'a list" where
  "or_empty_list v = (case v of None \<Rightarrow> [] | Some l \<Rightarrow> if l = [] then [] else l)"

definition or_empty_dict :: "req \<Rightarrow> req" where
  "or_empty_dict r = (if falsy_req r then ReqDict [] else r)"

text \<open>\<^verbatim>\<open>set(...)\<close> of a generator whose elements may raise: the first exception wins.\<close>

fun set_of_results :: "(error + 'a) list \<Rightarrow> error + 'a set" where
  "set_of_results [] = Inr {}"
| "set_of_results (r # rs) =
     (case r of
        Inl e \<Rightarrow> Inl e
      | Inr x \<Rightarrow> (case set_of_results rs of Inl e \<Rightarrow> Inl e | Inr s \<Rightarrow> Inr (insert x s)))"

text \<open>
  \<^verbatim>\<open>
  def _parse_requirements(req, build=True, host=True, run=True):
      if not req:  # handle None as empty
          return set()
      if isinstance(req, list):  # simple list goes to both host and run
          reqlist = req if (host or run) else []
      else:
          build = req.get("build", []) or [] if build else []
          host = req.get("host", []) or [] if host else []
          run = req.get("run", []) or [] if run else []
          reqlist = build + host + run
      return set(
          pin_sep_pat.split(x)[0].lower() for x in reqlist if x is not None
      )
  \<close>
  \<open>bare_name\<close> is the generator's element expression, \<open>select_reqlist\<close> the value of
  \<^verbatim>\<open>reqlist\<close> once the first test has let the section through.
\<close>

definition bare_name :: "string \<Rightarrow> error + string" where
  "bare_name x =
     (case item0 (re_split pin_sep_pat x) of Inl e \<Rightarrow> Inl e | Inr p \<Rightarrow> Inr (lower p))"

definition select_reqlist :: "req \<Rightarrow> bool \<Rightarrow> bool \<Rightarrow> bool \<Rightarrow> reqlist" where
  "select_reqlist req build host run =
     (case req of
        ReqList l \<Rightarrow> if host \<or> run then l else []
      | ReqDict d \<Rightarrow>
          (let build' = (if build then or_empty_list (dict_get d ''build'' (Some [])) else []);
               host' = (if host then or_empty_list (dict_get d ''host'' (Some [])) else []);
               run' = (if run then or_empty_list (dict_get d ''run'' (Some [])) else [])
           in build' @ host' @ run')
      | ReqNone \<Rightarrow> [])"

definition not_none :: "'a option list \<Rightarrow> 'a list" where
  "not_none l = concat (map (\<lambda>x. case x of None \<Rightarrow> [] | Some s \<Rightarrow> [s]) l)"

definition parse_requirements :: "req \<Rightarrow> bool \<Rightarrow> bool \<Rightarrow> bool \<Rightarrow> error + string set" where
  "parse_requirements req build host run =
     (if falsy_req req then Inr {}
      else set_of_results (map bare_name (not_none (select_reqlist req build host run))))"

text \<open>
  The recipe document: the value under \<^verbatim>\<open>"requirements"\<close> (\<open>None\<close> when the key is
  absent) and the value under \<^verbatim>\<open>"outputs"\<close> (\<open>None\<close> when absent, \<open>Some None\<close> when
  null); an output has a requirements section of its own.
  \<^verbatim>\<open>
  def get_requirements(meta_yaml, outputs=True, build=True, host=True, run=True):
      kw = dict(build=build, host=host, run=run)
      reqs = _parse_requirements(meta_yaml.get("requirements", {}), **kw)
      outputs = meta_yaml.get("outputs", []) or [] if outputs else []
      for output in outputs:
          reqs.update(_parse_requirements(output.get("requirements", {}) or {}, **kw))
      return reqs
  \<close>
\<close>

record recipe_output =
  output_requirements :: "req option"

record meta_yaml =
  requirements :: "req option"
  outputs :: "recipe_output list option option"

text \<open>\<^verbatim>\<open>x.get("requirements", {})\<close>: the empty mapping stands in for an absent key.\<close>

definition dict_default :: "req option \<Rightarrow> req" where
  "dict_default r = (case r of None \<Rightarrow> ReqDict [] | Some s \<Rightarrow> s)"

fun update_all ::
  "string set \<Rightarrow> recipe_output list \<Rightarrow> bool \<Rightarrow> bool \<Rightarrow> bool \<Rightarrow> error + string set" where
  "update_all reqs [] build host run = Inr reqs"
| "update_all reqs (out # outs) build host run =
     (case parse_requirements (or_empty_dict (dict_default (output_requirements out)))
             build host run of
        Inl e \<Rightarrow> Inl e
      | Inr s \<Rightarrow> update_all (reqs \<union> s) outs build host run)"

definition get_requirements ::
  "meta_yaml \<Rightarrow> bool \<Rightarrow> bool \<Rightarrow> bool \<Rightarrow> bool \<Rightarrow> error + string set" where
  "get_requirements my outs build host run =
     (case parse_requirements (dict_default (requirements my)) build host run of
        Inl e \<Rightarrow> Inl e
      | Inr reqs \<Rightarrow>
          (let outputs' =
                 (if outs
                  then or_empty_list (case outputs my of None \<Rightarrow> Some [] | Some v \<Rightarrow> v)
                  else [])
           in update_all reqs outputs' build host run))"

subsection \<open>The normalisation rule in the specification's words\<close>

text \<open>
  The applicable entries of a section (a null section has none, a flat list its entries,
  a mapping its build, host and run sub-lists, each empty when absent or null); the bare
  name of an entry (the text before the first space, \<^verbatim>\<open>>\<close>, \<^verbatim>\<open><\<close>, \<^verbatim>\<open>=\<close> or \<^verbatim>\<open>[\<close>,
  lower-cased); the set of the bare names of the entries that are not null.
\<close>

definition spec_is_separator :: "char \<Rightarrow> bool" where
  "spec_is_separator c =
     (c = CHR '' '' \<or> c = CHR ''>'' \<or> c = CHR ''<'' \<or> c = CHR ''='' \<or> c = CHR ''['')"

definition spec_bare_name :: "string \<Rightarrow> string" where
  "spec_bare_name x = lower (takeWhile (\<lambda>c. \<not> spec_is_separator c) x)"

definition spec_sublist :: "(string \<times> reqlist option) list \<Rightarrow> string \<Rightarrow> reqlist" where
  "spec_sublist d k = (case map_of d k of Some (Some l) \<Rightarrow> l | _ \<Rightarrow> [])"

fun spec_entries :: "req \<Rightarrow> reqlist" where
  "spec_entries ReqNone = []"
| "spec_entries (ReqList l) = l"
| "spec_entries (ReqDict d) =
     spec_sublist d ''build'' @ spec_sublist d ''host'' @ spec_sublist d ''run''"

definition spec_names :: "reqlist \<Rightarrow> string set" where
  "spec_names l = set (map spec_bare_name (not_none l))"

definition section_of :: "req option \<Rightarrow> req" where
  "section_of r = (case r of None \<Rightarrow> ReqNone | Some s \<Rightarrow> s)"

definition outputs_of :: "meta_yaml \<Rightarrow> recipe_output list" where
  "outputs_of my = (case outputs my of Some (Some l) \<Rightarrow> l | _ \<Rightarrow> [])"

section \<open>Graph utilities\<close>

text \<open>
  A directed graph of the graph library, by its structure: the set of nodes and the set
  of edges (attribute dictionaries of nodes and edges are not part of the model). The
  library's operations used by \<^verbatim>\<open>pluck\<close>: \<^verbatim>\<open>in_edges(n)\<close> and \<^verbatim>\<open>out_edges(n)\<close> list
  the edges into and out of \<open>n\<close>; \<^verbatim>\<open>remove_node(n)\<close> deletes \<open>n\<close> with every edge at
  it and raises when \<open>n\<close> is not a node; \<^verbatim>\<open>add_edges_from\<close> adds edges, and with them
  any endpoint that is not yet a node.
\<close>

record 'n digraph =
  nodes :: "'n set"
  edges :: "('n \<times> 'n) set"

definition in_edges :: "'n digraph \<Rightarrow> 'n \<Rightarrow> ('n \<times> 'n) set" where
  "in_edges G n = {e \<in> edges G. snd e = n}"

definition out_edges :: "'n digraph \<Rightarrow> 'n \<Rightarrow> ('n \<times> 'n) set" where
  "out_edges G n = {e \<in> edges G. fst e = n}"

definition remove_node :: "'n digraph \<Rightarrow> 'n \<Rightarrow> error + 'n digraph" where
  "remove_node G n =
     (if n \<in> nodes G
      then Inr \<lparr>nodes = nodes G - {n}, edges = {e \<in> edges G. fst e \<noteq> n \<and> snd e \<noteq> n}\<rparr>
      else Inl NetworkXError)"

definition add_edges_from :: "'n digraph \<Rightarrow> ('n \<times> 'n) set \<Rightarrow> 'n digraph" where
  "add_edges_from G ebunch =
     \<lparr>nodes = nodes G \<union> fst ` ebunch \<union> snd ` ebunch, edges = edges G \<union> ebunch\<rparr>"

text \<open>
  \<^verbatim>\<open>
  def pluck(G, node_id):
      if node_id in G.nodes:
          new_edges = list(
              itertools.product(
                  {_in for (_in, _) in G.in_edges(node_id)} - {node_id},
                  {_out for (_, _out) in G.out_edges(node_id)} - {node_id},
              )
          )
          G.remove_node(node_id)
          G.add_edges_from(new_edges)
  \<close>
  The function works in place; the model returns the graph after the call.
\<close>

definition pluck :: "'n digraph \<Rightarrow> 'n \<Rightarrow> error + 'n digraph" where
  "pluck G node_id =
     (if node_id \<in> nodes G then
        (let new_edges =
               (fst ` in_edges G node_id - {node_id}) \<times> (snd ` out_edges G node_id - {node_id})
         in case remove_node G node_id of
              Inl e \<Rightarrow> Inl e
            | Inr G' \<Rightarrow> Inr (add_edges_from G' new_edges))
      else Inr G)"

subsection \<open>Edge fusion in the specification's words\<close>

definition spec_predecessors :: "'n digraph \<Rightarrow> 'n \<Rightarrow> 'n set" where
  "spec_predecessors G n = {p. (p, n) \<in> edges G \<and> p \<noteq> n}"

definition spec_successors :: "'n digraph \<Rightarrow> 'n \<Rightarrow> 'n set" where
  "spec_successors G n = {s. (n, s) \<in> edges G \<and> s \<noteq> n}"

definition spec_plucked :: "'n digraph \<Rightarrow> 'n \<Rightarrow> 'n digraph" where
  "spec_plucked G n =
     \<lparr>nodes = nodes G - {n},
      edges = {e \<in> edges G. fst e \<noteq> n \<and> snd e \<noteq> n} \<union>
              spec_predecessors G n \<times> spec_successors G n\<rparr>"

text \<open>The library keeps both ends of every edge among the nodes.\<close>

definition wf_digraph :: "'n digraph \<Rightarrow> bool" where
  "wf_digraph G = (fst ` edges G \<subseteq> nodes G \<and> snd ` edges G \<subseteq> nodes G)"

section \<open>Execution abstraction\<close>

text \<open>
  \<^verbatim>\<open>
  @contextlib.contextmanager
  def executor(kind, max_workers):
      if kind == 'thread':
          with ThreadPoolExecutor(max_workers=max_workers) as pool:
              yield pool, as_completed
      elif kind == 'process':
          with ProcessPoolExecutor(max_workers=max_workers) as pool:
              yield pool, as_completed
      elif kind == 'dask':
          import distributed
          with distributed.LocalCluster(n_workers=max_workers) as cluster:
              with distributed.Client(cluster) as client:
                  yield client, distributed.as_completed
      else:
          raise NotImplementedError('That kind is not implemented')
  \<close>
  Entering the context runs the generator up to its \<^verbatim>\<open>yield\<close>. The state is the list
  of the resources acquired so far, in order; the result is the pair handed to the
  caller or the exception. Both pools refuse a worker count that is not positive, and
  the import fails where the optional library is not installed.
\<close>

datatype resource =
    ThreadPoolExecutor int
  | ProcessPoolExecutor int
  | LocalCluster int
  | Client

datatype completion = as_completed | distributed_as_completed

definition executor_enter ::
  "bool \<Rightarrow> string \<Rightarrow> int \<Rightarrow> resource list \<Rightarrow>
     (error + (resource \<times> completion)) \<times> resource list" where
  "executor_enter distributed_installed kind max_workers acquired =
     (if kind = ''thread'' then
        (if max_workers \<le> 0 then (Inl ValueError, acquired)
         else (Inr (ThreadPoolExecutor max_workers, as_completed),
               acquired @ [ThreadPoolExecutor max_workers]))
      else if kind = ''process'' then
        (if max_workers \<le> 0 then (Inl ValueError, acquired)
         else (Inr (ProcessPoolExecutor max_workers, as_completed),
               acquired @ [ProcessPoolExecutor max_workers]))
      else if kind = ''dask'' then
        (if \<not> distributed_installed then (Inl ImportError, acquired)
         else (Inr (Client, distributed_as_completed),
               acquired @ [LocalCluster max_workers, Client]))
      else (Inl NotImplementedError, acquired))"

section \<open>JSON documents and the file system\<close>

text \<open>
  A JSON value, as the standard decoder without hooks returns it and as the standard
  encoder accepts it: \<^verbatim>\<open>None\<close>, booleans, integers, strings, lists, and dictionaries
  with string keys in their order (floating-point numbers are left out). A text that
  the decoder accepts is represented by the value it decodes to, every other text by
  \<open>Unparseable\<close>; the encoder writes a text that decodes to the value encoded.
\<close>

datatype json =
    JNull
  | JBool bool
  | JInt int
  | JStr string
  | JArr "json list"
  | JObj "(string \<times> json) list"

datatype content = Document json | Unparseable

text \<open>
  The file system, as far as the module uses it: the regular files with their contents
  and the directories, both by path name. A path is the name the program passes;
  different spellings of one path are different names.
  \<^item> \<^verbatim>\<open>os.path.exists(p)\<close>;
  \<^item> \<^verbatim>\<open>os.path.split(p)\<close>: the text up to the last slash, its trailing slashes
    stripped unless it consists of slashes only, and the text after the last slash;
  \<^item> \<^verbatim>\<open>os.makedirs(name, exist_ok=True)\<close>: an empty name raises FileNotFoundError, an
    existing directory is left alone, an existing file of that name raises
    FileExistsError;
  \<^item> \<^verbatim>\<open>open(p, "w")\<close> followed by writing a text: it needs a file name after the last
    slash, no directory of that name, and an existing directory before the last slash
    (none names the working directory);
  \<^item> \<^verbatim>\<open>open(p, "r")\<close> followed by reading the text;
  \<^item> \<^verbatim>\<open>json.load\<close> without hooks.
\<close>

record filesystem =
  files :: "string \<rightharpoonup> content"
  dirs :: "string set"

definition os_path_exists :: "filesystem \<Rightarrow> string \<Rightarrow> bool" where
  "os_path_exists fs p = (p \<in> dom (files fs) \<or> p \<in> dirs fs)"

definition rstrip_slash :: "string \<Rightarrow> string" where
  "rstrip_slash s = rev (dropWhile (\<lambda>c. c = CHR ''/'') (rev s))"

definition os_path_split :: "string \<Rightarrow> string \<times> string" where
  "os_path_split p =
     (let tail = rev (takeWhile (\<lambda>c. c \<noteq> CHR ''/'') (rev p));
          head = rev (dropWhile (\<lambda>c. c \<noteq> CHR ''/'') (rev p))
      in if head \<noteq> [] \<and> \<not> list_all (\<lambda>c. c = CHR ''/'') head
         then (rstrip_slash head, tail) else (head, tail))"

definition os_makedirs :: "filesystem \<Rightarrow> string \<Rightarrow> error + filesystem" where
  "os_makedirs fs name =
     (if name = [] then Inl FileNotFoundError
      else if name \<in> dirs fs then Inr fs
      else if files fs name \<noteq> None then Inl FileExistsError
      else Inr (fs\<lparr>dirs := insert name (dirs fs)\<rparr>))"

definition open_write :: "filesystem \<Rightarrow> string \<Rightarrow> content \<Rightarrow> error + filesystem" where
  "open_write fs p c =
     (case os_path_split p of (head, tail) \<Rightarrow>
        if tail = [] then Inl (if head \<in> dirs fs then IsADirectoryError else FileNotFoundError)
        else if p \<in> dirs fs then Inl IsADirectoryError
        else if head = [] \<or> head \<in> dirs fs
          then Inr (fs\<lparr>files := (files fs)(p \<mapsto> c)\<rparr>)
        else Inl FileNotFoundError)"

definition open_read :: "filesystem \<Rightarrow> string \<Rightarrow> error + content" where
  "open_read fs p =
     (case files fs p of
        Some c \<Rightarrow> Inr c
      | None \<Rightarrow> Inl (if p \<in> dirs fs then IsADirectoryError else FileNotFoundError))"

definition json_load :: "content \<Rightarrow> error + json" where
  "json_load c = (case c of Document j \<Rightarrow> Inr j | Unparseable \<Rightarrow> Inl JSONDecodeError)"

text \<open>Subscripting, item assignment and \<^verbatim>\<open>len\<close> on a JSON value, with a string key.\<close>

fun dict_setitem :: "('k \<times> 'v) list \<Rightarrow> 'k \<Rightarrow> 'v \<Rightarrow> ('k \<times> 'v) list" where
  "dict_setitem [] k v = [(k, v)]"
| "dict_setitem (kv # d) k v =
     (if fst kv = k then (k, v) # d else kv # dict_setitem d k v)"

definition json_getitem :: "json \<Rightarrow> string \<Rightarrow> error + json" where
  "json_getitem j k =
     (case j of
        JObj d \<Rightarrow> (case map_of d k of None \<Rightarrow> Inl KeyError | Some v \<Rightarrow> Inr v)
      | _ \<Rightarrow> Inl TypeError)"

definition json_setitem :: "json \<Rightarrow> string \<Rightarrow> json \<Rightarrow> error + json" where
  "json_setitem j k v =
     (case j of
        JObj d \<Rightarrow> Inr (JObj (dict_setitem d k v))
      | _ \<Rightarrow> Inl TypeError)"

definition json_len :: "json \<Rightarrow> error + nat" where
  "json_len j =
     (case j of
        JObj d \<Rightarrow> Inr (length d)
      | JArr xs \<Rightarrow> Inr (length xs)
      | JStr s \<Rightarrow> Inr (length s)
      | _ \<Rightarrow> Inl TypeError)"

section \<open>LazyJson\<close>

text \<open>
  The object has the attributes \<^verbatim>\<open>file_name\<close> and \<^verbatim>\<open>data\<close>; \<^verbatim>\<open>data\<close> is
  \<^verbatim>\<open>None\<close> (\<open>JNull\<close>) until the file is loaded. Each method takes the file system and
  the object and returns its result with the object and, where it writes, the file
  system after the call. Keys are strings and the values assigned are JSON values.
  \<^verbatim>\<open>
  def __init__(self, file_name):
      self.file_name = file_name
      # If the file doesn't exist create an empty file
      if not os.path.exists(self.file_name):
          os.makedirs(os.path.split(self.file_name)[0], exist_ok=True)
          with open(self.file_name, "w") as f:
              json.dump({}, f)
      self.data = None
  \<close>
\<close>

record LazyJson =
  file_name :: string
  data :: json

definition LazyJson_init :: "filesystem \<Rightarrow> string \<Rightarrow> error + (LazyJson \<times> filesystem)" where
  "LazyJson_init fs fname =
     (if \<not> os_path_exists fs fname then
        (case os_makedirs fs (fst (os_path_split fname)) of
           Inl e \<Rightarrow> Inl e
         | Inr fs1 \<Rightarrow>
             (case open_write fs1 fname (Document (JObj [])) of
                Inl e \<Rightarrow> Inl e
              | Inr fs2 \<Rightarrow> Inr (\<lparr>file_name = fname, data = JNull\<rparr>, fs2)))
      else Inr (\<lparr>file_name = fname, data = JNull\<rparr>, fs))"

text \<open>
  \<^verbatim>\<open>
  def _load(self):
      if self.data is None:
          try:
              with open(self.file_name, "r") as f:
                  self.data = json.load(f)
          except FileNotFoundError:
              print(os.getcwd()); print(os.listdir('.'))
              raise
  def _dump(self):
      self._load()
      with open(self.file_name, "w") as f:
          json.dump(self.data, f, indent=4)
  \<close>
  The two diagnostic prints before the exception is raised again are not modelled, and
  the indentation only shapes the text written.
\<close>

definition LazyJson_load :: "filesystem \<Rightarrow> LazyJson \<Rightarrow> error + LazyJson" where
  "LazyJson_load fs self =
     (if data self = JNull then
        (case open_read fs (file_name self) of
           Inl e \<Rightarrow> Inl e
         | Inr c \<Rightarrow> (case json_load c of Inl e \<Rightarrow> Inl e | Inr j \<Rightarrow> Inr (self\<lparr>data := j\<rparr>)))
      else Inr self)"

definition LazyJson_dump :: "filesystem \<Rightarrow> LazyJson \<Rightarrow> error + (LazyJson \<times> filesystem)" where
  "LazyJson_dump fs self =
     (case LazyJson_load fs self of
        Inl e \<Rightarrow> Inl e
      | Inr self' \<Rightarrow>
          (case open_write fs (file_name self') (Document (data self')) of
             Inl e \<Rightarrow> Inl e
           | Inr fs' \<Rightarrow> Inr (self', fs')))"

text \<open>
  \<^verbatim>\<open>
  def __len__(self):
      self._load()
      return len(self.data)
  def __getitem__(self, item):
      self._load()
      return self.data[item]
  def __setitem__(self, key, value):
      self._load()
      self.data[key] = value
      self._dump()
  \<close>
\<close>

definition LazyJson_len :: "filesystem \<Rightarrow> LazyJson \<Rightarrow> error + (nat \<times> LazyJson)" where
  "LazyJson_len fs self =
     (case LazyJson_load fs self of
        Inl e \<Rightarrow> Inl e
      | Inr self' \<Rightarrow> (case json_len (data self') of Inl e \<Rightarrow> Inl e | Inr n \<Rightarrow> Inr (n, self')))"

definition LazyJson_getitem ::
  "filesystem \<Rightarrow> LazyJson \<Rightarrow> string \<Rightarrow> error + (json \<times> LazyJson)" where
  "LazyJson_getitem fs self item =
     (case LazyJson_load fs self of
        Inl e \<Rightarrow> Inl e
      | Inr self' \<Rightarrow>
          (case json_getitem (data self') item of Inl e \<Rightarrow> Inl e | Inr v \<Rightarrow> Inr (v, self')))"

definition LazyJson_setitem ::
  "filesystem \<Rightarrow> LazyJson \<Rightarrow> string \<Rightarrow> json \<Rightarrow> error + (LazyJson \<times> filesystem)" where
  "LazyJson_setitem fs self key val =
     (case LazyJson_load fs self of
        Inl e \<Rightarrow> Inl e
      | Inr self1 \<Rightarrow>
          (case json_setitem (data self1) key val of
             Inl e \<Rightarrow> Inl e
           | Inr d \<Rightarrow> LazyJson_dump fs (self1\<lparr>data := d\<rparr>)))"

text \<open>
  The truth value of a store in a condition: the class defines no \<^verbatim>\<open>__bool__\<close>, so
  Python asks \<^verbatim>\<open>__len__\<close> and takes a length of zero for false.
\<close>

definition LazyJson_bool :: "filesystem \<Rightarrow> LazyJson \<Rightarrow> error + (bool \<times> LazyJson)" where
  "LazyJson_bool fs self =
     (case LazyJson_len fs self of Inl e \<Rightarrow> Inl e | Inr (n, self') \<Rightarrow> Inr (n \<noteq> 0, self'))"

section \<open>JSON codec extensions\<close>

text \<open>
  The Python values that reach the codec: the JSON-native ones, a LazyJson store, and
  any other object (\<open>PObject\<close>, with its \<^verbatim>\<open>repr\<close>).
  \<^verbatim>\<open>
  def default(obj):
      if isinstance(obj, LazyJson):
          return {'__lazy_json__': obj.file_name}
      raise TypeError(repr(obj) + " is not JSON serializable")

  def object_hook(dct):
      if "__lazy_json__" in dct:
          return LazyJson(dct['__lazy_json__'])
      return dct
  \<close>
  \<^verbatim>\<open>default\<close> is \<open>default_hook\<close> here. The decoding hook constructs a store, so it
  takes the file system and returns it. A binding
  that is not a string makes the constructor's path operations raise TypeError (an
  integer, which they would read as a file descriptor, is counted with these).
\<close>

datatype pyval =
    PNone
  | PBool bool
  | PInt int
  | PStr string
  | PList "pyval list"
  | PDict "(string \<times> pyval) list"
  | PLazyJson LazyJson
  | PObject string

definition default_hook :: "pyval \<Rightarrow> error + pyval" where
  "default_hook obj =
     (case obj of
        PLazyJson lj \<Rightarrow> Inr (PDict [(''__lazy_json__'', PStr (file_name lj))])
      | _ \<Rightarrow> Inl TypeError)"

definition object_hook ::
  "filesystem \<Rightarrow> (string \<times> pyval) list \<Rightarrow> error + (pyval \<times> filesystem)" where
  "object_hook fs dct =
     (case map_of dct ''__lazy_json__'' of
        Some v \<Rightarrow>
          (case v of
             PStr p \<Rightarrow>
               (case LazyJson_init fs p of
                  Inl e \<Rightarrow> Inl e
                | Inr (lj, fs') \<Rightarrow> Inr (PLazyJson lj, fs'))
           | _ \<Rightarrow> Inl TypeError)
      | None \<Rightarrow> Inr (PDict dct, fs))"

text \<open>
  The standard encoder with \<^verbatim>\<open>sort_keys=True\<close> and the hook \<open>default_hook\<close>: a native
  value is encoded by its structure, the items of a dictionary in the order of their
  keys; for any other object the encoder calls the hook and encodes what it returns.
  The separators only shape the text.
\<close>

fun sequence :: "(error + 'a) list \<Rightarrow> error + 'a list" where
  "sequence [] = Inr []"
| "sequence (r # rs) =
     (case r of
        Inl e \<Rightarrow> Inl e
      | Inr x \<Rightarrow> (case sequence rs of Inl e \<Rightarrow> Inl e | Inr xs \<Rightarrow> Inr (x # xs)))"

primrec weight :: "pyval \<Rightarrow> nat" where
  "weight PNone = 1"
| "weight (PBool b) = 1"
| "weight (PInt i) = 1"
| "weight (PStr s) = 1"
| "weight (PList xs) = Suc (sum_list (map weight xs))"
| "weight (PDict d) = Suc (sum_list (map snd (map (map_prod id weight) d)))"
| "weight (PLazyJson lj) = 3"
| "weight (PObject r) = 3"

function json_dumps :: "pyval \<Rightarrow> error + json" where
  "json_dumps PNone = Inr JNull"
| "json_dumps (PBool b) = Inr (JBool b)"
| "json_dumps (PInt i) = Inr (JInt i)"
| "json_dumps (PStr s) = Inr (JStr s)"
| "json_dumps (PList xs) =
     (case sequence (map json_dumps xs) of Inl e \<Rightarrow> Inl e | Inr js \<Rightarrow> Inr (JArr js))"
| "json_dumps (PDict d) =
     (case sequence
             (map (\<lambda>kv. case json_dumps (snd kv) of Inl e \<Rightarrow> Inl e | Inr j \<Rightarrow> Inr (fst kv, j))
                  (sort_key fst d)) of
        Inl e \<Rightarrow> Inl e
      | Inr items \<Rightarrow> Inr (JObj items))"
| "json_dumps (PLazyJson lj) =
     (case default_hook (PLazyJson lj) of Inl e \<Rightarrow> Inl e | Inr v \<Rightarrow> json_dumps v)"
| "json_dumps (PObject r) =
     (case default_hook (PObject r) of Inl e \<Rightarrow> Inl e | Inr v \<Rightarrow> json_dumps v)"
  by pat_completeness auto

termination json_dumps
proof (relation "measure weight")
  show "wf (measure weight)" by simp
next
  fix xs :: "pyval list" and x
  assume "x \<in> set xs"
  then have "weight x \<le> sum_list (map weight xs)"
    by (induction xs) auto
  then show "(x, PList xs) \<in> measure weight" by simp
next
  fix d :: "(string \<times> pyval) list" and kv
  assume "kv \<in> set (sort_key fst d)"
  then have "kv \<in> set d" by simp
  then have "weight (snd kv) \<le> sum_list (map snd (map (map_prod id weight) d))"
    by (induction d) auto
  then show "(snd kv, PDict d) \<in> measure weight" by simp
next
  fix lj v
  assume "default_hook (PLazyJson lj) = Inr v"
  then show "(v, PLazyJson lj) \<in> measure weight"
    by (auto simp: default_hook_def)
next
  fix r v
  assume "default_hook (PObject r) = Inr v"
  then show "(v, PObject r) \<in> measure weight"
    by (auto simp: default_hook_def)
qed

text \<open>
  The standard decoder with the hook \<^verbatim>\<open>object_hook\<close>: every JSON object is decoded
  member by member, in the order of the text, and the dictionary is handed to the hook,
  whose result takes its place.
\<close>

fun json_loads :: "filesystem \<Rightarrow> json \<Rightarrow> error + (pyval \<times> filesystem)"
  and loads_list :: "filesystem \<Rightarrow> json list \<Rightarrow> error + (pyval list \<times> filesystem)"
  and loads_items ::
    "filesystem \<Rightarrow> (string \<times> json) list \<Rightarrow> error + ((string \<times> pyval) list \<times> filesystem)"
where
  "json_loads fs JNull = Inr (PNone, fs)"
| "json_loads fs (JBool b) = Inr (PBool b, fs)"
| "json_loads fs (JInt i) = Inr (PInt i, fs)"
| "json_loads fs (JStr s) = Inr (PStr s, fs)"
| "json_loads fs (JArr xs) =
     (case loads_list fs xs of Inl e \<Rightarrow> Inl e | Inr (vs, fs') \<Rightarrow> Inr (PList vs, fs'))"
| "json_loads fs (JObj d) =
     (case loads_items fs d of Inl e \<Rightarrow> Inl e | Inr (dct, fs') \<Rightarrow> object_hook fs' dct)"
| "loads_list fs [] = Inr ([], fs)"
| "loads_list fs (x # xs) =
     (case json_loads fs x of
        Inl e \<Rightarrow> Inl e
      | Inr (v, fs1) \<Rightarrow>
          (case loads_list fs1 xs of Inl e \<Rightarrow> Inl e | Inr (vs, fs2) \<Rightarrow> Inr (v # vs, fs2)))"
| "loads_items fs [] = Inr ([], fs)"
| "loads_items fs (kv # d) =
     (case json_loads fs (snd kv) of
        Inl e \<Rightarrow> Inl e
      | Inr (v, fs1) \<Rightarrow>
          (case loads_items fs1 d of
             Inl e \<Rightarrow> Inl e
           | Inr (dct, fs2) \<Rightarrow> Inr ((fst kv, v) # dct, fs2)))"

text \<open>
  \<^verbatim>\<open>
  def dumps(obj, sort_keys=True, separators=(",", ":"), default=default, **kwargs):
      return json.dumps(obj, sort_keys=sort_keys, separators=separators, default=default, **kwargs)
  def dump(obj, fp, sort_keys=True, separators=(",", ":"), default=default, **kwargs):
      return json.dump(obj, fp, sort_keys=sort_keys, separators=separators, default=default, **kwargs)
  def loads(s, object_hook=object_hook, **kwargs):
      return json.loads(s, object_hook=object_hook, **kwargs)
  def load(fp, object_hook=object_hook, **kwargs):
      return json.load(fp, object_hook=object_hook, **kwargs)
  \<close>
  with the default arguments. \<open>dumps\<close> returns the text and \<open>dump\<close> what it writes to
  the stream; \<open>loads\<close> takes the text and \<open>load\<close> what the stream holds.
\<close>

definition dumps :: "pyval \<Rightarrow> error + content" where
  "dumps obj = (case json_dumps obj of Inl e \<Rightarrow> Inl e | Inr j \<Rightarrow> Inr (Document j))"

definition dump :: "pyval \<Rightarrow> error + content" where
  "dump obj = (case json_dumps obj of Inl e \<Rightarrow> Inl e | Inr j \<Rightarrow> Inr (Document j))"

definition loads :: "filesystem \<Rightarrow> content \<Rightarrow> error + (pyval \<times> filesystem)" where
  "loads fs s = (case json_load s of Inl e \<Rightarrow> Inl e | Inr j \<Rightarrow> json_loads fs j)"

definition load :: "filesystem \<Rightarrow> content \<Rightarrow> error + (pyval \<times> filesystem)" where
  "load fs fp = (case json_load fp of Inl e \<Rightarrow> Inl e | Inr j \<Rightarrow> json_loads fs j)"

text \<open>
  \<^verbatim>\<open>
  def frozen_to_json_friendly(fz: dict, PR: LazyJson=None):
      keys = sorted(list(fz.keys()))
      d = {
          'keys': keys,
          'data': dict(fz)
      }
      if PR:
          d['PR'] = PR
      return d
  \<close>
  The mapping \<open>fz\<close> has string keys. The condition takes the truth value of the
  argument: \<^verbatim>\<open>None\<close> is false, a store is asked for its length.
\<close>

definition frozen_to_json_friendly ::
  "filesystem \<Rightarrow> (string \<times> pyval) list \<Rightarrow> LazyJson option \<Rightarrow> error + (string \<times> pyval) list"
  where
  "frozen_to_json_friendly fs fz PR =
     (let keys = sort (map fst fz);
          d = [(''keys'', PList (map PStr keys)), (''data'', PDict fz)]
      in case PR of
           None \<Rightarrow> Inr d
         | Some lj \<Rightarrow>
             (case LazyJson_bool fs lj of
                Inl e \<Rightarrow> Inl e
              | Inr (t, lj') \<Rightarrow> if t then Inr (dict_setitem d ''PR'' (PLazyJson lj')) else Inr d))"

section \<open>Properties of UniversalSet\<close>

text \<open>
  C8. For every built-in set \<open>S\<close>, both \<^verbatim>\<open>UniversalSet() & S\<close> and
  \<^verbatim>\<open>S & UniversalSet()\<close> evaluate, without raising, to \<open>S\<close> itself: the universal
  set is a two-sided identity of intersection. In the second order the built-in set
  declines and the universal set's reflected method answers.
\<close>

theorem UniversalSet_and_identity:
  "binary_and UniversalSet (BuiltinSet S) = Inr (BuiltinSet S) \<and>
   binary_and (BuiltinSet S) UniversalSet = Inr (BuiltinSet S)"
  by (simp add: binary_and_def UniversalSet_and_def UniversalSet_rand_def)

text \<open>
  C9. Every candidate \<open>x\<close> is reported as a member of the universal set, and at the
  same time iterating the universal set ends at once: the first \<^verbatim>\<open>__next__\<close> raises
  StopIteration, so the loop over it returns and yields the empty sequence.
\<close>

theorem UniversalSet_contains_all_iterates_none:
  "UniversalSet_contains x \<and>
   UniversalSet_next UniversalSet_iter = (Inl StopIteration :: error + ('a \<times> universal_iter)) \<and>
   consume UniversalSet_next UniversalSet_iter = Some (Inr ([] :: 'a list))"
  by (simp add: UniversalSet_contains_def UniversalSet_next_def consume.simps)

section \<open>Properties of requirements extraction\<close>

lemma re_split_takeWhile: "\<exists>ps. re_split sep x = takeWhile (\<lambda>c. \<not> sep c) x # ps"
  by (induction x) (auto split: list.splits)

lemma pin_sep_spec: "pin_sep_pat c = spec_is_separator c"
  by (auto simp: pin_sep_pat_def spec_is_separator_def)

lemma bare_name_eq: "bare_name x = Inr (spec_bare_name x)"
proof -
  obtain ps where "re_split pin_sep_pat x = takeWhile (\<lambda>c. \<not> pin_sep_pat c) x # ps"
    using re_split_takeWhile by blast
  then show ?thesis
    by (simp add: bare_name_def item0_def spec_bare_name_def pin_sep_spec)
qed

lemma set_of_results_Inr: "set_of_results (map Inr xs) = Inr (set xs)"
  by (induction xs) auto

lemma set_of_results_bare:
  "set_of_results (map bare_name xs) = Inr (set (map spec_bare_name xs))"
proof -
  have "map bare_name xs = map Inr (map spec_bare_name xs)"
    by (simp add: bare_name_eq)
  then show ?thesis by (simp only: set_of_results_Inr)
qed

lemma spec_sublist_empty [simp]: "spec_sublist [] k = []"
  by (simp add: spec_sublist_def)

lemma select_all: "select_reqlist req True True True = spec_entries req"
  by (cases req)
     (auto simp: select_reqlist_def spec_sublist_def dict_get_def or_empty_list_def
           split: option.splits)

lemma parse_requirements_eq:
  "parse_requirements req build host run =
     Inr (if falsy_req req then {} else spec_names (select_reqlist req build host run))"
  by (simp add: parse_requirements_def set_of_results_bare spec_names_def)

lemma falsy_spec_names: "falsy_req req \<Longrightarrow> spec_names (spec_entries req) = {}"
  by (cases req) (simp_all add: spec_names_def not_none_def)

lemma parse_requirements_all:
  "parse_requirements req True True True = Inr (spec_names (spec_entries req))"
  by (simp add: parse_requirements_eq select_all falsy_spec_names)

lemma or_empty_dict_entries: "spec_entries (or_empty_dict r) = spec_entries r"
  by (cases r) (simp_all add: or_empty_dict_def)

lemma dict_default_entries: "spec_entries (dict_default r) = spec_entries (section_of r)"
  by (cases r) (simp_all add: dict_default_def section_of_def)

lemma update_all_all:
  "update_all reqs outs True True True =
     Inr (reqs \<union> (\<Union>out\<in>set outs. spec_names (spec_entries (section_of (output_requirements out)))))"
proof (induction outs arbitrary: reqs)
  case Nil
  show ?case by simp
next
  case (Cons out outs)
  show ?case
    by (simp add: parse_requirements_all or_empty_dict_entries dict_default_entries Cons.IH Un_assoc)
qed

lemma outputs_or_empty:
  "or_empty_list (case outputs my of None \<Rightarrow> Some [] | Some v \<Rightarrow> v) = outputs_of my"
  by (simp add: or_empty_list_def outputs_of_def split: option.splits)

text \<open>
  C3. With build, host, run and outputs enabled, a section (null, a flat list, or a
  mapping whose build, host and run sub-lists count as empty when absent or null) is
  parsed, without raising, to the set the normalisation rule describes: null entries
  dropped, every other entry cut at its first space, \<^verbatim>\<open>>\<close>, \<^verbatim>\<open><\<close>, \<^verbatim>\<open>=\<close> or \<^verbatim>\<open>[\<close>
  and lower-cased, duplicates merged. \<^verbatim>\<open>get_requirements\<close> returns the union of these
  sets over the top-level section and the sections of the outputs. For the section
  with build \<^verbatim>\<open>["numpy >=1.0"]\<close>, host \<^verbatim>\<open>["python"]\<close> and run
  \<^verbatim>\<open>["numpy", "scipy[test]"]\<close> the result is \<^verbatim>\<open>{"numpy", "python", "scipy"}\<close>.
\<close>

theorem get_requirements_all_flags:
  "parse_requirements req True True True = Inr (spec_names (spec_entries req)) \<and>
   get_requirements my True True True True =
     Inr (spec_names (spec_entries (section_of (requirements my))) \<union>
          (\<Union>out\<in>set (outputs_of my).
              spec_names (spec_entries (section_of (output_requirements out))))) \<and>
   get_requirements
     \<lparr>requirements = Some (ReqDict [(''build'', Some [Some ''numpy >=1.0'']),
                                   (''host'', Some [Some ''python'']),
                                   (''run'', Some [Some ''numpy'', Some ''scipy[test]''])]),
      outputs = None\<rparr> True True True True = Inr {''numpy'', ''python'', ''scipy''}"
proof (intro conjI)
  show "parse_requirements req True True True = Inr (spec_names (spec_entries req))"
    by (rule parse_requirements_all)
  show "get_requirements my True True True True =
     Inr (spec_names (spec_entries (section_of (requirements my))) \<union>
          (\<Union>out\<in>set (outputs_of my).
              spec_names (spec_entries (section_of (output_requirements out)))))"
    by (simp add: get_requirements_def parse_requirements_all update_all_all
          dict_default_entries outputs_or_empty)
  have "spec_names [Some ''numpy >=1.0'', Some ''python'', Some ''numpy'', Some ''scipy[test]'']
          = {''numpy'', ''python'', ''scipy''}"
    by (simp add: spec_names_def not_none_def spec_bare_name_def spec_is_separator_def
          lower_def lower_char_def) auto
  then show "get_requirements
     \<lparr>requirements = Some (ReqDict [(''build'', Some [Some ''numpy >=1.0'']),
                                   (''host'', Some [Some ''python'']),
                                   (''run'', Some [Some ''numpy'', Some ''scipy[test]''])]),
      outputs = None\<rparr> True True True True = Inr {''numpy'', ''python'', ''scipy''}"
    by (simp add: get_requirements_def parse_requirements_all update_all_all
          dict_default_def or_empty_list_def spec_sublist_def)
qed

theorem get_requirements_all_flags_witness:
  "get_requirements
     \<lparr>requirements = Some (ReqList [Some ''Numpy>=1.0'', None, Some ''python 3.*'']),
      outputs = Some (Some [\<lparr>output_requirements = Some (ReqDict [(''run'', Some [Some ''SciPy[test]''])])\<rparr>,
                            \<lparr>output_requirements = None\<rparr>])\<rparr>
     True True True True = Inr {''numpy'', ''python'', ''scipy''}"
proof -
  have "spec_names [Some ''Numpy>=1.0'', None, Some ''python 3.*''] = {''numpy'', ''python''}"
    by (simp add: spec_names_def not_none_def spec_bare_name_def spec_is_separator_def
          lower_def lower_char_def)
  moreover have "spec_names [Some ''SciPy[test]''] = {''scipy''}"
    by (simp add: spec_names_def not_none_def spec_bare_name_def spec_is_separator_def
          lower_def lower_char_def)
  moreover have "spec_names [] = {}"
    by (simp add: spec_names_def not_none_def)
  ultimately show ?thesis
    using get_requirements_all_flags
      [of ReqNone "\<lparr>requirements = Some (ReqList [Some ''Numpy>=1.0'', None, Some ''python 3.*'']),
      outputs = Some (Some [\<lparr>output_requirements = Some (ReqDict [(''run'', Some [Some ''SciPy[test]''])])\<rparr>,
                            \<lparr>output_requirements = None\<rparr>])\<rparr>"]
    by (simp add: section_of_def outputs_of_def spec_sublist_def insert_commute)
qed

lemma update_all_superset:
  "\<exists>s. update_all reqs outs build host run = Inr s \<and> reqs \<subseteq> s"
proof (induction outs arbitrary: reqs)
  case Nil
  show ?case by simp
next
  case (Cons out outs)
  obtain s where "update_all (reqs \<union> (if falsy_req (or_empty_dict (dict_default (output_requirements out))) then {}
      else spec_names (select_reqlist (or_empty_dict (dict_default (output_requirements out))) build host run))) outs build host run = Inr s"
     and "reqs \<union> (if falsy_req (or_empty_dict (dict_default (output_requirements out))) then {}
      else spec_names (select_reqlist (or_empty_dict (dict_default (output_requirements out))) build host run)) \<subseteq> s"
    using Cons.IH by blast
  then show ?case
    by (simp add: parse_requirements_eq)
qed

lemma select_reqlist_falsy: "falsy_req req \<Longrightarrow> select_reqlist req build host run = []"
  by (cases req) (simp_all add: select_reqlist_def dict_get_def or_empty_list_def)

lemma leading_separator_name:
  "x \<noteq> [] \<Longrightarrow> pin_sep_pat (hd x) \<Longrightarrow> spec_bare_name x = []"
  by (cases x) (simp_all add: spec_bare_name_def pin_sep_spec lower_def)

lemma not_none_member: "Some x \<in> set l \<Longrightarrow> x \<in> set (not_none l)"
  by (induction l) (auto simp: not_none_def)

lemma parse_requirements_empty_name:
  assumes "x \<noteq> []" "pin_sep_pat (hd x)" "Some x \<in> set (select_reqlist req build host run)"
  shows "\<exists>s. parse_requirements req build host run = Inr s \<and> [] \<in> s"
proof -
  have "\<not> falsy_req req"
    using assms(3) select_reqlist_falsy [of req build host run] by auto
  moreover have "spec_bare_name x \<in> spec_names (select_reqlist req build host run)"
    using not_none_member [OF assms(3)] by (simp add: spec_names_def)
  ultimately show ?thesis
    using leading_separator_name [OF assms(1,2)] by (simp add: parse_requirements_eq)
qed

text \<open>
  C10. An entry that is selected by the flags and begins with one of the separator
  characters contributes the empty string: the parse returns a set that contains
  \<^verbatim>\<open>""\<close>, and so does \<^verbatim>\<open>get_requirements\<close> when the entry is in the top-level
  section. Only null entries are dropped.
\<close>

theorem leading_separator_gives_empty_name:
  assumes "x \<noteq> []" and "pin_sep_pat (hd x)"
    and "Some x \<in> set (select_reqlist req build host run)"
  shows "(\<exists>s. parse_requirements req build host run = Inr s \<and> [] \<in> s) \<and>
         (requirements my = Some req \<longrightarrow>
            (\<exists>s. get_requirements my outs build host run = Inr s \<and> [] \<in> s))"
proof (intro conjI impI)
  show p: "\<exists>s. parse_requirements req build host run = Inr s \<and> [] \<in> s"
    using assms by (rule parse_requirements_empty_name)
  assume my: "requirements my = Some req"
  from p obtain s where s: "parse_requirements req build host run = Inr s" "[] \<in> s"
    by blast
  obtain s' where "update_all s (if outs then or_empty_list (case outputs my of None \<Rightarrow> Some [] | Some v \<Rightarrow> v) else [])
      build host run = Inr s'" "s \<subseteq> s'"
    using update_all_superset by blast
  with s my show "\<exists>s. get_requirements my outs build host run = Inr s \<and> [] \<in> s"
    by (auto simp: get_requirements_def dict_default_def)
qed

theorem leading_separator_gives_empty_name_witness:
  "''[linux]'' \<noteq> [] \<and> pin_sep_pat (hd ''[linux]'') \<and>
   Some ''[linux]'' \<in> set (select_reqlist (ReqList [Some ''numpy'', None, Some ''[linux]'']) False True False) \<and>
   (\<exists>s. parse_requirements (ReqList [Some ''numpy'', None, Some ''[linux]'']) False True False = Inr s \<and>
        [] \<in> s) \<and>
   (\<exists>s. get_requirements
          \<lparr>requirements = Some (ReqList [Some ''numpy'', None, Some ''[linux]'']), outputs = None\<rparr>
          True False True False = Inr s \<and> [] \<in> s) \<and>
   parse_requirements (ReqList [Some '' foo'']) False True False = Inr {[]}"
proof -
  have h1: "''[linux]'' \<noteq> []" by simp
  have h2: "pin_sep_pat (hd ''[linux]'')" by (simp add: pin_sep_pat_def)
  have h3: "Some ''[linux]'' \<in>
      set (select_reqlist (ReqList [Some ''numpy'', None, Some ''[linux]'']) False True False)"
    by (simp add: select_reqlist_def)
  have h4: "parse_requirements (ReqList [Some '' foo'']) False True False = Inr {[]}"
    by (simp add: parse_requirements_def select_reqlist_def not_none_def bare_name_def
          item0_def pin_sep_pat_def lower_def)
  show ?thesis
    using h1 h2 h3 h4
      leading_separator_gives_empty_name [OF h1 h2 h3,
        of "\<lparr>requirements = Some (ReqList [Some ''numpy'', None, Some ''[linux]'']), outputs = None\<rparr>" True]
    by simp
qed

section \<open>Properties of pluck\<close>

lemma pluck_present:
  assumes "wf_digraph G" "n \<in> nodes G"
  shows "pluck G n = Inr (spec_plucked G n)"
proof -
  have a: "fst ` in_edges G n - {n} = spec_predecessors G n"
    by (auto simp: in_edges_def spec_predecessors_def image_iff)
  have b: "snd ` out_edges G n - {n} = spec_successors G n"
    by (auto simp: out_edges_def spec_successors_def image_iff)
  have c: "spec_predecessors G n \<subseteq> nodes G - {n}"
    using assms(1) by (auto simp: spec_predecessors_def wf_digraph_def image_subset_iff)
  have d: "spec_successors G n \<subseteq> nodes G - {n}"
    using assms(1) by (force simp: spec_successors_def wf_digraph_def image_subset_iff)
  have e: "nodes G - {n} \<union> fst ` (spec_predecessors G n \<times> spec_successors G n)
             \<union> snd ` (spec_predecessors G n \<times> spec_successors G n) = nodes G - {n}"
    using c d by auto
  show ?thesis
    using assms(2)
    by (simp add: pluck_def remove_node_def add_edges_from_def spec_plucked_def a b e
          del: fst_image_times snd_image_times)
qed

text \<open>
  C2. On a graph whose edges join nodes of the graph: when \<open>n\<close> is a node,
  \<^verbatim>\<open>pluck\<close> returns, without raising, the graph without \<open>n\<close> and its edges, with
  an edge added from every predecessor of \<open>n\<close> other than \<open>n\<close> to every successor of
  \<open>n\<close> other than \<open>n\<close>, and when there is no such predecessor or no such successor
  every edge of the result is an edge of the graph; when \<open>n\<close> is not a node the graph
  is returned as it is. On the edges A to B and B to C, plucking B leaves the nodes A
  and C and the one edge A to C.
\<close>

theorem pluck_fuses_edges:
  assumes "wf_digraph G"
  shows "(n \<in> nodes G \<longrightarrow>
            pluck G n = Inr (spec_plucked G n) \<and>
            ((spec_predecessors G n = {} \<or> spec_successors G n = {}) \<longrightarrow>
               edges (spec_plucked G n) \<subseteq> edges G)) \<and>
         (n \<notin> nodes G \<longrightarrow> pluck G n = Inr G) \<and>
         pluck \<lparr>nodes = {''A'', ''B'', ''C''}, edges = {(''A'', ''B''), (''B'', ''C'')}\<rparr> ''B''
           = Inr \<lparr>nodes = {''A'', ''C''}, edges = {(''A'', ''C'')}\<rparr>"
proof (intro conjI impI)
  assume "n \<in> nodes G"
  then show "pluck G n = Inr (spec_plucked G n)"
    using assms by (simp add: pluck_present)
next
  assume "spec_predecessors G n = {} \<or> spec_successors G n = {}"
  then show "edges (spec_plucked G n) \<subseteq> edges G"
    by (auto simp: spec_plucked_def)
next
  assume "n \<notin> nodes G"
  then show "pluck G n = Inr G" by (simp add: pluck_def)
next
  have "wf_digraph \<lparr>nodes = {''A'', ''B'', ''C''}, edges = {(''A'', ''B''), (''B'', ''C'')}\<rparr>"
    by (simp add: wf_digraph_def)
  then have "pluck \<lparr>nodes = {''A'', ''B'', ''C''}, edges = {(''A'', ''B''), (''B'', ''C'')}\<rparr> ''B''
      = Inr (spec_plucked \<lparr>nodes = {''A'', ''B'', ''C''}, edges = {(''A'', ''B''), (''B'', ''C'')}\<rparr> ''B'')"
    by (simp add: pluck_present)
  moreover have "spec_plucked \<lparr>nodes = {''A'', ''B'', ''C''}, edges = {(''A'', ''B''), (''B'', ''C'')}\<rparr> ''B''
      = \<lparr>nodes = {''A'', ''C''}, edges = {(''A'', ''C'')}\<rparr>"
    by (auto simp: spec_plucked_def spec_predecessors_def spec_successors_def)
  ultimately show "pluck \<lparr>nodes = {''A'', ''B'', ''C''}, edges = {(''A'', ''B''), (''B'', ''C'')}\<rparr> ''B''
           = Inr \<lparr>nodes = {''A'', ''C''}, edges = {(''A'', ''C'')}\<rparr>"
    by simp
qed

theorem pluck_fuses_edges_witness:
  "wf_digraph \<lparr>nodes = {1, 2, 3, 4 :: nat}, edges = {(1, 2), (2, 2), (2, 3), (2, 4), (3, 4)}\<rparr> \<and>
   pluck \<lparr>nodes = {1, 2, 3, 4 :: nat}, edges = {(1, 2), (2, 2), (2, 3), (2, 4), (3, 4)}\<rparr> 2
     = Inr \<lparr>nodes = {1, 3, 4}, edges = {(1, 3), (1, 4), (3, 4)}\<rparr> \<and>
   pluck \<lparr>nodes = {1, 2, 3, 4 :: nat}, edges = {(1, 2), (2, 2), (2, 3), (2, 4), (3, 4)}\<rparr> 1
     = Inr \<lparr>nodes = {2, 3, 4}, edges = {(2, 2), (2, 3), (2, 4), (3, 4)}\<rparr> \<and>
   pluck \<lparr>nodes = {1, 2, 3, 4 :: nat}, edges = {(1, 2), (2, 2), (2, 3), (2, 4), (3, 4)}\<rparr> 5
     = Inr \<lparr>nodes = {1, 2, 3, 4}, edges = {(1, 2), (2, 2), (2, 3), (2, 4), (3, 4)}\<rparr>"
proof -
  let ?G = "\<lparr>nodes = {1, 2, 3, 4 :: nat}, edges = {(1, 2), (2, 2), (2, 3), (2, 4), (3, 4)}\<rparr>"
  have wf: "wf_digraph ?G" by (simp add: wf_digraph_def)
  have p2: "spec_plucked ?G 2 = \<lparr>nodes = {1, 3, 4}, edges = {(1, 3), (1, 4), (3, 4)}\<rparr>"
    by (auto simp: spec_plucked_def spec_predecessors_def spec_successors_def)
  have p1: "spec_plucked ?G 1 = \<lparr>nodes = {2, 3, 4}, edges = {(2, 2), (2, 3), (2, 4), (3, 4)}\<rparr>"
    by (auto simp: spec_plucked_def spec_predecessors_def spec_successors_def)
  show ?thesis
    using wf p1 p2 pluck_fuses_edges [OF wf, of 2] pluck_fuses_edges [OF wf, of 1]
      pluck_fuses_edges [OF wf, of 5]
    by simp
qed

section \<open>Properties of the execution abstraction\<close>

text \<open>
  C7. For a kind other than \<^verbatim>\<open>"thread"\<close>, \<^verbatim>\<open>"process"\<close> and \<^verbatim>\<open>"dask"\<close>, entering
  the context raises NotImplementedError and the list of acquired resources is what it
  was before: no pool, cluster or client is acquired.
\<close>

theorem executor_unknown_kind:
  assumes "kind \<noteq> ''thread''" and "kind \<noteq> ''process''" and "kind \<noteq> ''dask''"
  shows "executor_enter distributed_installed kind max_workers acquired
           = (Inl NotImplementedError, acquired)"
  using assms by (simp add: executor_enter_def)

theorem executor_unknown_kind_witness:
  "''magic'' \<noteq> ''thread'' \<and> ''magic'' \<noteq> ''process'' \<and> ''magic'' \<noteq> ''dask'' \<and>
   executor_enter True ''magic'' 4 [] = (Inl NotImplementedError, [])"
proof -
  have h1: "''magic'' \<noteq> ''thread''" by simp
  have h2: "''magic'' \<noteq> ''process''" by simp
  have h3: "''magic'' \<noteq> ''dask''" by simp
  show ?thesis
    using h1 h2 h3 executor_unknown_kind [OF h1 h2 h3, of True 4 "[]"] by simp
qed

section \<open>Properties of LazyJson\<close>

lemma map_of_dict_setitem: "map_of (dict_setitem d k v) k = Some v"
  by (induction d) auto

lemma open_write_files:
  "open_write fs p c = Inr fs' \<Longrightarrow> fs' = fs\<lparr>files := (files fs)(p \<mapsto> c)\<rparr>"
  by (auto simp: open_write_def split: prod.splits if_splits)

lemma LazyJson_load_file_name:
  "LazyJson_load fs self = Inr self' \<Longrightarrow> file_name self' = file_name self"
  by (auto simp: LazyJson_load_def split: if_splits sum.splits)

lemma LazyJson_load_loaded:
  "data self \<noteq> JNull \<Longrightarrow> LazyJson_load fs self = Inr self"
  by (simp add: LazyJson_load_def)

lemma LazyJson_setitem_writes:
  assumes "LazyJson_setitem fs self k v = Inr (self', fs')"
  shows "file_name self' = file_name self \<and>
         (\<exists>d. data self' = JObj d \<and> map_of d k = Some v) \<and>
         fs' = fs\<lparr>files := (files fs)(file_name self \<mapsto> Document (data self'))\<rparr>"
proof -
  from assms obtain self1 d where
    l: "LazyJson_load fs self = Inr self1" and
    s: "json_setitem (data self1) k v = Inr d" and
    w: "LazyJson_dump fs (self1\<lparr>data := d\<rparr>) = Inr (self', fs')"
    by (auto simp: LazyJson_setitem_def split: sum.splits)
  from s obtain al where d: "d = JObj (dict_setitem al k v)"
    by (auto simp: json_setitem_def split: json.splits)
  then have "LazyJson_load fs (self1\<lparr>data := d\<rparr>) = Inr (self1\<lparr>data := d\<rparr>)"
    by (simp add: LazyJson_load_loaded)
  with w have self': "self' = self1\<lparr>data := d\<rparr>"
    and ow: "open_write fs (file_name self1) (Document d) = Inr fs'"
    by (auto simp: LazyJson_dump_def split: sum.splits)
  have fn: "file_name self1 = file_name self"
    using l by (rule LazyJson_load_file_name)
  show ?thesis
    using self' d fn open_write_files [OF ow] by (simp add: map_of_dict_setitem)
qed

lemma LazyJson_init_existing:
  "os_path_exists fs p \<Longrightarrow> LazyJson_init fs p = Inr (\<lparr>file_name = p, data = JNull\<rparr>, fs)"
  by (simp add: LazyJson_init_def)

lemma LazyJson_setitem_then_reload:
  assumes "LazyJson_setitem fs self k v = Inr (self', fs')"
  shows "files fs' (file_name self) = Some (Document (data self')) \<and>
         LazyJson_init fs' (file_name self)
           = Inr (\<lparr>file_name = file_name self, data = JNull\<rparr>, fs') \<and>
         LazyJson_getitem fs' \<lparr>file_name = file_name self, data = JNull\<rparr> k = Inr (v, self')"
proof -
  from LazyJson_setitem_writes [OF assms] obtain d where
    fn: "file_name self' = file_name self" and
    d: "data self' = JObj d" "map_of d k = Some v" and
    fs': "fs' = fs\<lparr>files := (files fs)(file_name self \<mapsto> Document (data self'))\<rparr>"
    by blast
  have f: "files fs' (file_name self) = Some (Document (data self'))"
    using fs' by simp
  then have "os_path_exists fs' (file_name self)"
    by (auto simp: os_path_exists_def)
  then have i: "LazyJson_init fs' (file_name self)
           = Inr (\<lparr>file_name = file_name self, data = JNull\<rparr>, fs')"
    by (rule LazyJson_init_existing)
  have "LazyJson_load fs' \<lparr>file_name = file_name self, data = JNull\<rparr>
          = Inr \<lparr>file_name = file_name self, data = data self'\<rparr>"
    using f by (simp add: LazyJson_load_def open_read_def json_load_def)
  moreover have "\<lparr>file_name = file_name self, data = data self'\<rparr> = self'"
    using fn by simp
  ultimately have "LazyJson_getitem fs' \<lparr>file_name = file_name self, data = JNull\<rparr> k = Inr (v, self')"
    using d by (simp add: LazyJson_getitem_def json_getitem_def)
  with f i show ?thesis by simp
qed

lemma LazyJson_setitem_returns:
  assumes "LazyJson_load fs self = Inr self1" and "data self1 = JObj d"
    and "open_write fs (file_name self) (Document (JObj (dict_setitem d k v))) = Inr fs2"
  shows "LazyJson_setitem fs self k v = Inr (self1\<lparr>data := JObj (dict_setitem d k v)\<rparr>, fs2)"
proof -
  have "file_name self1 = file_name self"
    using assms(1) by (rule LazyJson_load_file_name)
  then show ?thesis
    using assms
    by (simp add: LazyJson_setitem_def json_setitem_def LazyJson_dump_def LazyJson_load_loaded)
qed

text \<open>
  C1. Whenever assigning 1 to the key \<^verbatim>\<open>"a"\<close> of a store returns, the backing file
  holds the store's cache as it is after the assignment (the assignment is written
  through at once); constructing a new store over the same path then succeeds and
  leaves the file system alone, and looking \<^verbatim>\<open>"a"\<close> up in the new store, which loads
  the file, returns 1. The assignment does return when the store loads to a dictionary
  and its file can be written.
\<close>

theorem LazyJson_setitem_round_trip:
  "(LazyJson_setitem fs self ''a'' (JInt 1) = Inr (self', fs') \<longrightarrow>
      files fs' (file_name self) = Some (Document (data self')) \<and>
      LazyJson_init fs' (file_name self)
        = Inr (\<lparr>file_name = file_name self, data = JNull\<rparr>, fs') \<and>
      LazyJson_getitem fs' \<lparr>file_name = file_name self, data = JNull\<rparr> ''a''
        = Inr (JInt 1, self')) \<and>
   (LazyJson_load fs self = Inr self1 \<and> data self1 = JObj d \<and>
    open_write fs (file_name self) (Document (JObj (dict_setitem d ''a'' (JInt 1)))) = Inr fs2 \<longrightarrow>
      LazyJson_setitem fs self ''a'' (JInt 1)
        = Inr (self1\<lparr>data := JObj (dict_setitem d ''a'' (JInt 1))\<rparr>, fs2))"
proof (intro conjI impI)
  assume a: "LazyJson_setitem fs self ''a'' (JInt 1) = Inr (self', fs')"
  show "files fs' (file_name self) = Some (Document (data self'))"
    using LazyJson_setitem_then_reload [OF a] by simp
  show "LazyJson_init fs' (file_name self)
        = Inr (\<lparr>file_name = file_name self, data = JNull\<rparr>, fs')"
    using LazyJson_setitem_then_reload [OF a] by simp
  show "LazyJson_getitem fs' \<lparr>file_name = file_name self, data = JNull\<rparr> ''a''
        = Inr (JInt 1, self')"
    using LazyJson_setitem_then_reload [OF a] by simp
next
  assume "LazyJson_load fs self = Inr self1 \<and> data self1 = JObj d \<and>
    open_write fs (file_name self) (Document (JObj (dict_setitem d ''a'' (JInt 1)))) = Inr fs2"
  then show "LazyJson_setitem fs self ''a'' (JInt 1)
        = Inr (self1\<lparr>data := JObj (dict_setitem d ''a'' (JInt 1))\<rparr>, fs2)"
    by (simp add: LazyJson_setitem_returns)
qed

lemma tmp_split: "os_path_split ''/tmp/x.json'' = (''/tmp'', ''x.json'')"
  by (simp add: os_path_split_def rstrip_slash_def)

theorem LazyJson_setitem_round_trip_witness:
  "LazyJson_init \<lparr>files = Map.empty, dirs = {''/tmp''}\<rparr> ''/tmp/x.json''
     = Inr (\<lparr>file_name = ''/tmp/x.json'', data = JNull\<rparr>,
            \<lparr>files = [''/tmp/x.json'' \<mapsto> Document (JObj [])], dirs = {''/tmp''}\<rparr>) \<and>
   LazyJson_setitem \<lparr>files = [''/tmp/x.json'' \<mapsto> Document (JObj [])], dirs = {''/tmp''}\<rparr>
       \<lparr>file_name = ''/tmp/x.json'', data = JNull\<rparr> ''a'' (JInt 1)
     = Inr (\<lparr>file_name = ''/tmp/x.json'', data = JObj [(''a'', JInt 1)]\<rparr>,
            \<lparr>files = [''/tmp/x.json'' \<mapsto> Document (JObj [(''a'', JInt 1)])], dirs = {''/tmp''}\<rparr>) \<and>
   LazyJson_getitem
       \<lparr>files = [''/tmp/x.json'' \<mapsto> Document (JObj [(''a'', JInt 1)])], dirs = {''/tmp''}\<rparr>
       \<lparr>file_name = ''/tmp/x.json'', data = JNull\<rparr> ''a''
     = Inr (JInt 1, \<lparr>file_name = ''/tmp/x.json'', data = JObj [(''a'', JInt 1)]\<rparr>)"
proof -
  have i: "LazyJson_init \<lparr>files = Map.empty, dirs = {''/tmp''}\<rparr> ''/tmp/x.json''
     = Inr (\<lparr>file_name = ''/tmp/x.json'', data = JNull\<rparr>,
            \<lparr>files = [''/tmp/x.json'' \<mapsto> Document (JObj [])], dirs = {''/tmp''}\<rparr>)"
    by (simp add: LazyJson_init_def os_path_exists_def os_makedirs_def open_write_def tmp_split)
  have l: "LazyJson_load \<lparr>files = [''/tmp/x.json'' \<mapsto> Document (JObj [])], dirs = {''/tmp''}\<rparr>
       \<lparr>file_name = ''/tmp/x.json'', data = JNull\<rparr>
     = Inr \<lparr>file_name = ''/tmp/x.json'', data = JObj []\<rparr> \<and>
     data \<lparr>file_name = ''/tmp/x.json'', data = JObj []\<rparr> = JObj [] \<and>
     open_write \<lparr>files = [''/tmp/x.json'' \<mapsto> Document (JObj [])], dirs = {''/tmp''}\<rparr>
       (file_name \<lparr>file_name = ''/tmp/x.json'', data = JNull\<rparr>)
       (Document (JObj (dict_setitem [] ''a'' (JInt 1))))
     = Inr \<lparr>files = [''/tmp/x.json'' \<mapsto> Document (JObj [(''a'', JInt 1)])], dirs = {''/tmp''}\<rparr>"
    by (simp add: LazyJson_load_def open_read_def json_load_def open_write_def tmp_split)
  have s: "LazyJson_setitem \<lparr>files = [''/tmp/x.json'' \<mapsto> Document (JObj [])], dirs = {''/tmp''}\<rparr>
       \<lparr>file_name = ''/tmp/x.json'', data = JNull\<rparr> ''a'' (JInt 1)
     = Inr (\<lparr>file_name = ''/tmp/x.json'', data = JObj [(''a'', JInt 1)]\<rparr>,
            \<lparr>files = [''/tmp/x.json'' \<mapsto> Document (JObj [(''a'', JInt 1)])], dirs = {''/tmp''}\<rparr>)"
    using LazyJson_setitem_round_trip [THEN conjunct2, THEN mp, OF l] by simp
  have g: "LazyJson_getitem
       \<lparr>files = [''/tmp/x.json'' \<mapsto> Document (JObj [(''a'', JInt 1)])], dirs = {''/tmp''}\<rparr>
       \<lparr>file_name = ''/tmp/x.json'', data = JNull\<rparr> ''a''
     = Inr (JInt 1, \<lparr>file_name = ''/tmp/x.json'', data = JObj [(''a'', JInt 1)]\<rparr>)"
    using LazyJson_setitem_round_trip [THEN conjunct1, THEN mp, OF s] by simp
  show ?thesis
    by (intro conjI) (rule i, rule s, rule g)
qed

lemma bare_name_split: "CHR ''/'' \<notin> set p \<Longrightarrow> os_path_split p = ([], p)"
proof -
  assume "CHR ''/'' \<notin> set p"
  then have all: "\<And>c. c \<in> set (rev p) \<Longrightarrow> c \<noteq> CHR ''/''" by auto
  have t: "takeWhile (\<lambda>c. c \<noteq> CHR ''/'') (rev p) = rev p"
    using all by (rule takeWhile_eq_all_conv [THEN iffD2, OF ballI])
  have d: "dropWhile (\<lambda>c. c \<noteq> CHR ''/'') (rev p) = []"
    using all by (rule dropWhile_eq_Nil_conv [THEN iffD2, OF ballI])
  show ?thesis by (simp add: os_path_split_def t d)
qed

lemma LazyJson_init_bare_name:
  "CHR ''/'' \<notin> set p \<Longrightarrow> \<not> os_path_exists fs p \<Longrightarrow> LazyJson_init fs p = Inl FileNotFoundError"
  by (simp add: LazyJson_init_def bare_name_split os_makedirs_def)

lemma LazyJson_init_creates:
  assumes "\<not> os_path_exists fs p"
    and "os_makedirs fs (fst (os_path_split p)) = Inr fs1"
    and "open_write fs1 p (Document (JObj [])) = Inr fs2"
  shows "LazyJson_init fs p = Inr (\<lparr>file_name = p, data = JNull\<rparr>, fs2) \<and>
         files fs2 p = Some (Document (JObj [])) \<and>
         fst (os_path_split p) \<in> dirs fs2 \<and>
         LazyJson_len fs2 \<lparr>file_name = p, data = JNull\<rparr>
           = Inr (0, \<lparr>file_name = p, data = JObj []\<rparr>)"
proof -
  have f: "fs2 = fs1\<lparr>files := (files fs1)(p \<mapsto> Document (JObj []))\<rparr>"
    using assms(3) by (rule open_write_files)
  have d: "fst (os_path_split p) \<in> dirs fs1"
    using assms(2) by (auto simp: os_makedirs_def split: if_splits)
  show ?thesis
    using assms f d
    by (simp add: LazyJson_init_def LazyJson_len_def LazyJson_load_def open_read_def
          json_load_def json_len_def)
qed

text \<open>
  C5. In a directory that has no file \<^verbatim>\<open>x.json\<close>, constructing a store over the bare
  name \<^verbatim>\<open>x.json\<close> raises FileNotFoundError: the path has an empty directory part,
  and creating directories for the empty name fails before any file is written. So the
  constructor does not create the file for every path at which no file exists.
\<close>

theorem LazyJson_init_bare_name_fails:
  "\<not> os_path_exists \<lparr>files = Map.empty, dirs = {}\<rparr> ''x.json'' \<and>
   LazyJson_init \<lparr>files = Map.empty, dirs = {}\<rparr> ''x.json'' = Inl FileNotFoundError"
  by (simp add: LazyJson_init_def os_path_exists_def os_path_split_def os_makedirs_def)

section \<open>Properties of the JSON codec extensions\<close>

lemma LazyJson_init_result:
  assumes "LazyJson_init fs0 p = Inr (lj, fs)"
  shows "lj = \<lparr>file_name = p, data = JNull\<rparr> \<and> os_path_exists fs p"
proof (cases "os_path_exists fs0 p")
  case True
  with assms show ?thesis by (simp add: LazyJson_init_def)
next
  case False
  with assms obtain fs1 where
    w: "open_write fs1 p (Document (JObj [])) = Inr fs" and lj: "lj = \<lparr>file_name = p, data = JNull\<rparr>"
    by (auto simp: LazyJson_init_def split: sum.splits)
  have "files fs p \<noteq> None"
    using open_write_files [OF w] by simp
  with lj show ?thesis by (auto simp: os_path_exists_def)
qed

lemma loads_tagged:
  "loads fs (Document (JObj [(''__lazy_json__'', JStr p)])) =
     (case LazyJson_init fs p of Inl e \<Rightarrow> Inl e | Inr (lj, fs') \<Rightarrow> Inr (PLazyJson lj, fs'))"
  by (simp add: loads_def json_load_def object_hook_def)

lemma load_tagged:
  "load fs (Document (JObj [(''__lazy_json__'', JStr p)])) =
     (case LazyJson_init fs p of Inl e \<Rightarrow> Inl e | Inr (lj, fs') \<Rightarrow> Inr (PLazyJson lj, fs'))"
  by (simp add: load_def json_load_def object_hook_def)

lemma tagged_result:
  assumes "(case LazyJson_init fs p of Inl e \<Rightarrow> Inl e | Inr (lj, fs') \<Rightarrow> Inr (PLazyJson lj, fs'))
             = Inr (v, fs')"
  shows "v = PLazyJson \<lparr>file_name = p, data = JNull\<rparr>"
proof (cases "LazyJson_init fs p")
  case (Inl e)
  with assms show ?thesis by simp
next
  case (Inr r)
  obtain lj fs1 where r: "r = (lj, fs1)" by (cases r)
  with Inr assms have "v = PLazyJson lj" by simp
  moreover have "lj = \<lparr>file_name = p, data = JNull\<rparr>"
    using Inr r LazyJson_init_result by blast
  ultimately show ?thesis by simp
qed

text \<open>
  C4. For every path \<open>p\<close>: encoding a store bound to \<open>p\<close>, whatever its cache, with
  \<^verbatim>\<open>dumps\<close> or \<^verbatim>\<open>dump\<close> gives the structure \<^verbatim>\<open>{"__lazy_json__": p}\<close>. A store
  bound to \<open>p\<close> has been constructed, and after its construction the path exists; where
  the path exists, decoding the structure with \<^verbatim>\<open>loads\<close> or \<^verbatim>\<open>load\<close> returns a store
  bound to \<open>p\<close>, not yet loaded, and leaves the file system alone. Whenever decoding
  the structure returns at all, what it returns is a store bound to \<open>p\<close>.
\<close>

theorem LazyJson_codec_round_trip:
  "dumps (PLazyJson \<lparr>file_name = p, data = d\<rparr>)
     = Inr (Document (JObj [(''__lazy_json__'', JStr p)])) \<and>
   dump (PLazyJson \<lparr>file_name = p, data = d\<rparr>)
     = Inr (Document (JObj [(''__lazy_json__'', JStr p)])) \<and>
   (LazyJson_init fs0 p = Inr (lj, fs) \<longrightarrow>
      file_name lj = p \<and>
      dumps (PLazyJson lj) = Inr (Document (JObj [(''__lazy_json__'', JStr p)])) \<and>
      os_path_exists fs p) \<and>
   (os_path_exists fs p \<longrightarrow>
      loads fs (Document (JObj [(''__lazy_json__'', JStr p)]))
        = Inr (PLazyJson \<lparr>file_name = p, data = JNull\<rparr>, fs) \<and>
      load fs (Document (JObj [(''__lazy_json__'', JStr p)]))
        = Inr (PLazyJson \<lparr>file_name = p, data = JNull\<rparr>, fs)) \<and>
   (loads fs (Document (JObj [(''__lazy_json__'', JStr p)])) = Inr (v, fs') \<longrightarrow>
      v = PLazyJson \<lparr>file_name = p, data = JNull\<rparr>) \<and>
   (load fs (Document (JObj [(''__lazy_json__'', JStr p)])) = Inr (v, fs') \<longrightarrow>
      v = PLazyJson \<lparr>file_name = p, data = JNull\<rparr>)"
proof (intro conjI impI)
  show "dumps (PLazyJson \<lparr>file_name = p, data = d\<rparr>)
     = Inr (Document (JObj [(''__lazy_json__'', JStr p)]))"
    by (simp add: dumps_def default_hook_def)
  show "dump (PLazyJson \<lparr>file_name = p, data = d\<rparr>)
     = Inr (Document (JObj [(''__lazy_json__'', JStr p)]))"
    by (simp add: dump_def default_hook_def)
next
  assume i: "LazyJson_init fs0 p = Inr (lj, fs)"
  show "file_name lj = p"
    using LazyJson_init_result [OF i] by simp
  then show "dumps (PLazyJson lj) = Inr (Document (JObj [(''__lazy_json__'', JStr p)]))"
    by (simp add: dumps_def default_hook_def)
  show "os_path_exists fs p"
    using LazyJson_init_result [OF i] by simp
next
  assume e: "os_path_exists fs p"
  show "loads fs (Document (JObj [(''__lazy_json__'', JStr p)]))
        = Inr (PLazyJson \<lparr>file_name = p, data = JNull\<rparr>, fs)"
    by (simp only: loads_tagged LazyJson_init_existing [OF e] sum.case prod.case)
  show "load fs (Document (JObj [(''__lazy_json__'', JStr p)]))
        = Inr (PLazyJson \<lparr>file_name = p, data = JNull\<rparr>, fs)"
    by (simp only: load_tagged LazyJson_init_existing [OF e] sum.case prod.case)
next
  assume "loads fs (Document (JObj [(''__lazy_json__'', JStr p)])) = Inr (v, fs')"
  then show "v = PLazyJson \<lparr>file_name = p, data = JNull\<rparr>"
    unfolding loads_tagged by (rule tagged_result)
next
  assume "load fs (Document (JObj [(''__lazy_json__'', JStr p)])) = Inr (v, fs')"
  then show "v = PLazyJson \<lparr>file_name = p, data = JNull\<rparr>"
    unfolding load_tagged by (rule tagged_result)
qed

theorem LazyJson_codec_round_trip_witness:
  "LazyJson_init \<lparr>files = Map.empty, dirs = {''/tmp''}\<rparr> ''/tmp/x.json''
     = Inr (\<lparr>file_name = ''/tmp/x.json'', data = JNull\<rparr>,
            \<lparr>files = [''/tmp/x.json'' \<mapsto> Document (JObj [])], dirs = {''/tmp''}\<rparr>) \<and>
   os_path_exists \<lparr>files = [''/tmp/x.json'' \<mapsto> Document (JObj [])], dirs = {''/tmp''}\<rparr>
     ''/tmp/x.json'' \<and>
   dumps (PLazyJson \<lparr>file_name = ''/tmp/x.json'', data = JNull\<rparr>)
     = Inr (Document (JObj [(''__lazy_json__'', JStr ''/tmp/x.json'')])) \<and>
   loads \<lparr>files = [''/tmp/x.json'' \<mapsto> Document (JObj [])], dirs = {''/tmp''}\<rparr>
       (Document (JObj [(''__lazy_json__'', JStr ''/tmp/x.json'')]))
     = Inr (PLazyJson \<lparr>file_name = ''/tmp/x.json'', data = JNull\<rparr>,
            \<lparr>files = [''/tmp/x.json'' \<mapsto> Document (JObj [])], dirs = {''/tmp''}\<rparr>)"
proof -
  let ?fs = "\<lparr>files = [''/tmp/x.json'' \<mapsto> Document (JObj [])], dirs = {''/tmp''}\<rparr>"
  have i: "LazyJson_init \<lparr>files = Map.empty, dirs = {''/tmp''}\<rparr> ''/tmp/x.json''
     = Inr (\<lparr>file_name = ''/tmp/x.json'', data = JNull\<rparr>, ?fs)"
    by (simp add: LazyJson_init_def os_path_exists_def os_makedirs_def open_write_def tmp_split)
  have e: "os_path_exists ?fs ''/tmp/x.json''"
    by (simp add: os_path_exists_def)
  note rt = LazyJson_codec_round_trip [of "''/tmp/x.json''" JNull
        "\<lparr>files = Map.empty, dirs = {''/tmp''}\<rparr>"
        "\<lparr>file_name = ''/tmp/x.json'', data = JNull\<rparr>" ?fs PNone ?fs]
  have d: "dumps (PLazyJson \<lparr>file_name = ''/tmp/x.json'', data = JNull\<rparr>)
     = Inr (Document (JObj [(''__lazy_json__'', JStr ''/tmp/x.json'')]))"
    by (rule rt [THEN conjunct2, THEN conjunct2, THEN conjunct1, THEN mp, OF i,
          THEN conjunct2, THEN conjunct1])
  have l: "loads ?fs (Document (JObj [(''__lazy_json__'', JStr ''/tmp/x.json'')]))
     = Inr (PLazyJson \<lparr>file_name = ''/tmp/x.json'', data = JNull\<rparr>, ?fs)"
    by (rule rt [THEN conjunct2, THEN conjunct2, THEN conjunct2, THEN conjunct1, THEN mp, OF e,
          THEN conjunct1])
  show ?thesis
    by (intro conjI) (rule i, rule e, rule d, rule l)
qed

lemma LazyJson_len_file_name:
  "LazyJson_len fs self = Inr (n, self') \<Longrightarrow> file_name self' = file_name self"
  by (auto simp: LazyJson_len_def split: sum.splits dest: LazyJson_load_file_name)

text \<open>
  C6, as amended. The record has the sorted list of the keys of \<open>fz\<close> under \<^verbatim>\<open>keys\<close>
  and the contents of \<open>fz\<close> under \<^verbatim>\<open>data\<close>. Without a reference it has these two
  keys only. With a reference, the reference is asked for its length: when that raises,
  the call raises the same exception; when the length is zero the result is the one
  without a reference; when the length is not zero the reference, loaded and bound to
  the same file, is attached under \<^verbatim>\<open>PR\<close>.
\<close>

theorem frozen_to_json_friendly_record:
  "(\<exists>ks. frozen_to_json_friendly fs fz None
            = Inr [(''keys'', PList (map PStr ks)), (''data'', PDict fz)] \<and>
          sorted ks \<and> mset ks = mset (map fst fz)) \<and>
   (LazyJson_len fs lj = Inl e \<longrightarrow> frozen_to_json_friendly fs fz (Some lj) = Inl e) \<and>
   (LazyJson_len fs lj = Inr (0, lj') \<longrightarrow>
      frozen_to_json_friendly fs fz (Some lj) = frozen_to_json_friendly fs fz None) \<and>
   (LazyJson_len fs lj = Inr (n, lj') \<and> n \<noteq> 0 \<longrightarrow>
      file_name lj' = file_name lj \<and>
      (\<exists>ks. frozen_to_json_friendly fs fz (Some lj)
               = Inr [(''keys'', PList (map PStr ks)), (''data'', PDict fz), (''PR'', PLazyJson lj')] \<and>
             sorted ks \<and> mset ks = mset (map fst fz)))"
proof (intro conjI impI)
  show "\<exists>ks. frozen_to_json_friendly fs fz None
            = Inr [(''keys'', PList (map PStr ks)), (''data'', PDict fz)] \<and>
          sorted ks \<and> mset ks = mset (map fst fz)"
    by (rule exI [of _ "sort (map fst fz)"]) (simp add: frozen_to_json_friendly_def)
next
  assume "LazyJson_len fs lj = Inl e"
  then show "frozen_to_json_friendly fs fz (Some lj) = Inl e"
    by (simp add: frozen_to_json_friendly_def LazyJson_bool_def)
next
  assume "LazyJson_len fs lj = Inr (0, lj')"
  then show "frozen_to_json_friendly fs fz (Some lj) = frozen_to_json_friendly fs fz None"
    by (simp add: frozen_to_json_friendly_def LazyJson_bool_def)
next
  assume a: "LazyJson_len fs lj = Inr (n, lj') \<and> n \<noteq> 0"
  then have "LazyJson_len fs lj = Inr (n, lj')" by simp
  then show "file_name lj' = file_name lj"
    by (rule LazyJson_len_file_name)
  show "\<exists>ks. frozen_to_json_friendly fs fz (Some lj)
               = Inr [(''keys'', PList (map PStr ks)), (''data'', PDict fz), (''PR'', PLazyJson lj')] \<and>
             sorted ks \<and> mset ks = mset (map fst fz)"
    using a
    by (intro exI [of _ "sort (map fst fz)"]) (simp add: frozen_to_json_friendly_def LazyJson_bool_def)
qed

theorem frozen_to_json_friendly_empty_store_counterexample:
  "LazyJson_init \<lparr>files = Map.empty, dirs = {''pr_json''}\<rparr> ''pr_json/1.json''
     = Inr (\<lparr>file_name = ''pr_json/1.json'', data = JNull\<rparr>,
            \<lparr>files = [''pr_json/1.json'' \<mapsto> Document (JObj [])], dirs = {''pr_json''}\<rparr>) \<and>
   frozen_to_json_friendly
       \<lparr>files = [''pr_json/1.json'' \<mapsto> Document (JObj [])], dirs = {''pr_json''}\<rparr>
       [(''name'', PStr ''x''), (''bot'', PInt 1)]
       (Some \<lparr>file_name = ''pr_json/1.json'', data = JNull\<rparr>)
     = Inr [(''keys'', PList [PStr ''bot'', PStr ''name'']),
            (''data'', PDict [(''name'', PStr ''x''), (''bot'', PInt 1)])] \<and>
   map_of [(''keys'', PList [PStr ''bot'', PStr ''name'']),
           (''data'', PDict [(''name'', PStr ''x''), (''bot'', PInt 1)])] ''PR'' = None"
  by (simp add: frozen_to_json_friendly_def LazyJson_bool_def LazyJson_len_def LazyJson_load_def
        open_read_def json_load_def json_len_def LazyJson_init_def os_path_exists_def
        os_makedirs_def open_write_def os_path_split_def rstrip_slash_def)

theorem frozen_to_json_friendly_record_witness:
  "LazyJson_len \<lparr>files = [''pr_json/1.json'' \<mapsto> Document (JObj [(''number'', JInt 7)])],
                  dirs = {''pr_json''}\<rparr>
       \<lparr>file_name = ''pr_json/1.json'', data = JNull\<rparr>
     = Inr (1, \<lparr>file_name = ''pr_json/1.json'', data = JObj [(''number'', JInt 7)]\<rparr>) \<and>
   (1::nat) \<noteq> 0 \<and>
   (\<exists>ks. frozen_to_json_friendly
            \<lparr>files = [''pr_json/1.json'' \<mapsto> Document (JObj [(''number'', JInt 7)])],
              dirs = {''pr_json''}\<rparr>
            [(''name'', PStr ''x''), (''bot'', PInt 1)]
            (Some \<lparr>file_name = ''pr_json/1.json'', data = JNull\<rparr>)
          = Inr [(''keys'', PList (map PStr ks)),
                 (''data'', PDict [(''name'', PStr ''x''), (''bot'', PInt 1)]),
                 (''PR'', PLazyJson \<lparr>file_name = ''pr_json/1.json'',
                                      data = JObj [(''number'', JInt 7)]\<rparr>)] \<and>
         sorted ks \<and> mset ks = mset (map fst [(''name'', PStr ''x''), (''bot'', PInt 1)]))"
proof -
  let ?fs = "\<lparr>files = [''pr_json/1.json'' \<mapsto> Document (JObj [(''number'', JInt 7)])],
                  dirs = {''pr_json''}\<rparr>"
  have l: "LazyJson_len ?fs \<lparr>file_name = ''pr_json/1.json'', data = JNull\<rparr>
     = Inr (1, \<lparr>file_name = ''pr_json/1.json'', data = JObj [(''number'', JInt 7)]\<rparr>)"
    by (simp add: LazyJson_len_def LazyJson_load_def open_read_def json_load_def json_len_def)
  have n: "(1::nat) \<noteq> 0" by simp
  have h: "LazyJson_len ?fs \<lparr>file_name = ''pr_json/1.json'', data = JNull\<rparr>
     = Inr (1, \<lparr>file_name = ''pr_json/1.json'', data = JObj [(''number'', JInt 7)]\<rparr>) \<and> (1::nat) \<noteq> 0"
    using l n by (rule conjI)
  have t: "file_name \<lparr>file_name = ''pr_json/1.json'', data = JObj [(''number'', JInt 7)]\<rparr>
        = file_name \<lparr>file_name = ''pr_json/1.json'', data = JNull\<rparr> \<and>
      (\<exists>ks. frozen_to_json_friendly ?fs [(''name'', PStr ''x''), (''bot'', PInt 1)]
            (Some \<lparr>file_name = ''pr_json/1.json'', data = JNull\<rparr>)
          = Inr [(''keys'', PList (map PStr ks)),
                 (''data'', PDict [(''name'', PStr ''x''), (''bot'', PInt 1)]),
                 (''PR'', PLazyJson \<lparr>file_name = ''pr_json/1.json'',
                                      data = JObj [(''number'', JInt 7)]\<rparr>)] \<and>
         sorted ks \<and> mset ks = mset (map fst [(''name'', PStr ''x''), (''bot'', PInt 1)]))"
    by (rule frozen_to_json_friendly_record [of ?fs "[(''name'', PStr ''x''), (''bot'', PInt 1)]"
        "\<lparr>file_name = ''pr_json/1.json'', data = JNull\<rparr>" FileNotFoundError
        "\<lparr>file_name = ''pr_json/1.json'', data = JObj [(''number'', JInt 7)]\<rparr>" 1,
        THEN conjunct2, THEN conjunct2, THEN conjunct2, THEN mp, OF h])
  show ?thesis
    by (intro conjI) (rule l, rule n, rule t [THEN conjunct2])
qed

end
